theory Spec2Isabelle
  imports Complex_Main
begin

section \<open>approxeng.util: interpolation, quantisation and the interval gate\<close>

text \<open>
  A shallow embedding of \<^verbatim>\<open>approxeng/util/__init__.py\<close>.

  Numbers. The specification's data model takes every parameter and every input of the
  interpolation functions to be a real number, and the timestamps of the interval gate to
  be seconds. The embedding follows it: a Python \<^verbatim>\<open>float\<close> is a \<^typ>\<open>real\<close> and
  arithmetic is exact, whereas the code computes in IEEE doubles and rounds after every
  operation. The theorems about the interpolation functions are therefore kept to what does
  not rest on exactness: the checks and their order, the structure of the evaluation, the
  sign of the interpolated value, and the levels of concrete examples. That a locked output
  stays within the destination bounds, that the end points are hit exactly and that the
  inverse law holds with equality are true of the exact formula only; the code misses each
  by a rounding error, and no theorem here states them.
  \<^verbatim>\<open>max_level\<close> is a Python \<^verbatim>\<open>int\<close>, hence an \<^typ>\<open>int\<close>; \<^verbatim>\<open>math.floor\<close> returns an
  \<^verbatim>\<open>int\<close>, hence \<^term>\<open>floor\<close>.

  Errors. Every \<^verbatim>\<open>raise\<close> of the source is a \<^verbatim>\<open>ValueError\<close>; the four raise sites differ
  in their message, which is kept as the argument of the constructor. The two partial
  primitives the code calls, true division and \<^verbatim>\<open>time.sleep\<close>, raise as Python does.

  Closures. A factory returns one of its inner functions; the variables the inner function
  captures (\<^verbatim>\<open>source_low\<close>, \<^verbatim>\<open>source_range_inverse\<close>, \<^verbatim>\<open>dest_low\<close>, \<^verbatim>\<open>dest_high\<close>) are
  its leading arguments here, and the factory returns the partial application.
\<close>

subsection \<open>Errors and partial primitives\<close>

datatype message =
    LowPadRange real          \<comment> \<open>\<^verbatim>\<open>low_pad must be between 0.0 and 1.0, was {low_pad}\<close>\<close>
  | HighPadRange real         \<comment> \<open>\<^verbatim>\<open>high_pad must be between 0.0 and 1.0, was {high_pad}\<close>\<close>
  | LevelsNotPositive         \<comment> \<open>\<^verbatim>\<open>number of quantisation levels must be greater than zero\<close>\<close>
  | SourceRangeEmpty real     \<comment> \<open>\<^verbatim>\<open>unable to create interpolator, source_low == source_high == {source_low}\<close>\<close>
  | SleepLengthNegative       \<comment> \<open>raised by \<^verbatim>\<open>time.sleep\<close> on a negative argument\<close>

datatype error = ValueError message | ZeroDivisionError

text \<open>Python's \<^verbatim>\<open>a / b\<close> on numbers.\<close>

definition truediv :: "real \<Rightarrow> real \<Rightarrow> error + real" where
  "truediv a b = (if b = 0 then Inl ZeroDivisionError else Inr (a / b))"

text \<open>
  \<^verbatim>\<open>time.sleep(secs)\<close>: raises on a negative argument, otherwise blocks the caller for
  \<^verbatim>\<open>secs\<close> seconds. The model returns the duration blocked for.
\<close>

definition time_sleep :: "real \<Rightarrow> error + real" where
  "time_sleep secs = (if secs < 0 then Inl (ValueError SleepLengthNegative) else Inr secs)"

subsection \<open>The interpolator factory\<close>

definition inner_interpolator :: "real \<Rightarrow> real \<Rightarrow> real \<Rightarrow> real \<Rightarrow> real \<Rightarrow> real" where
  "inner_interpolator source_low source_range_inverse dest_low dest_high val =
     (let i = (val - source_low) * source_range_inverse
      in i * dest_high + (1 - i) * dest_low)"

definition inner_locked_interpolator :: "real \<Rightarrow> real \<Rightarrow> real \<Rightarrow> real \<Rightarrow> real \<Rightarrow> real" where
  "inner_locked_interpolator source_low source_range_inverse dest_low dest_high val =
     (let i = max 0 (min 1 ((val - source_low) * source_range_inverse))
      in i * dest_high + (1 - i) * dest_low)"

function interpolator :: "real \<Rightarrow> real \<Rightarrow> real \<Rightarrow> real \<Rightarrow> bool \<Rightarrow> error + (real \<Rightarrow> real)" where
  "interpolator source_low source_high dest_low dest_high lock_range =
     (if source_low > source_high
        then interpolator source_high source_low dest_high dest_low lock_range
      else if source_low = source_high
        then Inl (ValueError (SourceRangeEmpty source_low))
      else
        case truediv 1 (source_high - source_low) of
          Inl e \<Rightarrow> Inl e
        | Inr source_range_inverse \<Rightarrow>
            Inr (if lock_range
                   then inner_locked_interpolator source_low source_range_inverse dest_low dest_high
                 else inner_interpolator source_low source_range_inverse dest_low dest_high))"
  by pat_completeness auto
termination
  by (relation "measure (\<lambda>(source_low, source_high, dest_low, dest_high, lock_range).
                           if source_low > source_high then 1 else 0)") auto

declare interpolator.simps [simp del]

subsection \<open>The quantiser factory\<close>

definition quantise_to :: "real \<Rightarrow> real \<Rightarrow> int \<Rightarrow> real \<Rightarrow> real \<Rightarrow> error + (real \<Rightarrow> int)" where
  "quantise_to source_low source_high max_level low_pad high_pad =
     (if low_pad > 1 \<or> low_pad < 0 then Inl (ValueError (LowPadRange low_pad))
      else if high_pad > 1 \<or> high_pad < 0 then Inl (ValueError (HighPadRange high_pad))
      else if max_level < 1 then Inl (ValueError LevelsNotPositive)
      else
        case interpolator source_low source_high
               low_pad (of_int max_level + 1 - high_pad) True of
          Inl e \<Rightarrow> Inl e
        | Inr i \<Rightarrow> Inr (\<lambda>val. min max_level \<lfloor>i val\<rfloor>))"

subsection \<open>IntervalCheck\<close>

text \<open>
  The object is a record of its two attributes. Each method reads the clock exactly once,
  as its first statement; the value read, \<open>now\<close>, is an argument of the model, so that
  the theorems hold for every behaviour of the clock. A method returns its Python result
  together with the object after the call.
\<close>

record IntervalCheck =
  interval :: real
  last_time :: "real option"

definition dunder_init :: "real \<Rightarrow> IntervalCheck" where
  "dunder_init interval' = \<lparr>interval = interval', last_time = None\<rparr>"

definition should_run :: "real \<Rightarrow> IntervalCheck \<Rightarrow> bool \<times> IntervalCheck" where
  "should_run now self =
     (case last_time self of
        None \<Rightarrow> (True, self\<lparr>last_time := Some now\<rparr>)
      | Some t \<Rightarrow>
          if now - t > interval self then (True, self\<lparr>last_time := Some now\<rparr>)
          else (False, self))"

definition dunder_bool :: "real \<Rightarrow> IntervalCheck \<Rightarrow> bool \<times> IntervalCheck" where
  "dunder_bool now self = should_run now self"

text \<open>
  \<^verbatim>\<open>sleep\<close> returns \<^verbatim>\<open>None\<close>; the model returns what the caller observes instead: the
  duration it was blocked for, \<^term>\<open>None\<close> when \<^verbatim>\<open>time.sleep\<close> was not called.
\<close>

definition sleep :: "real \<Rightarrow> IntervalCheck \<Rightarrow> error + (real option \<times> IntervalCheck)" where
  "sleep now self =
     (case last_time self of
        None \<Rightarrow> Inr (None, self\<lparr>last_time := Some now\<rparr>)
      | Some t \<Rightarrow>
          if now - t > interval self then Inr (None, self)
          else
            let remaining_interval = interval self - (now - t)
            in case time_sleep remaining_interval of
                 Inl e \<Rightarrow> Inl e
               | Inr blocked \<Rightarrow>
                   Inr (Some blocked, self\<lparr>last_time := Some (now + remaining_interval)\<rparr>))"

definition dunder_enter :: "real \<Rightarrow> IntervalCheck \<Rightarrow> error + (real option \<times> IntervalCheck)" where
  "dunder_enter now self = sleep now self"

text \<open>
  \<^verbatim>\<open>__exit__(self, exc_type, exc_val, exc_tb)\<close>: the three exception arguments are one
  optional exception here, \<^term>\<open>None\<close> when the block completed normally. The method
  returns \<^verbatim>\<open>None\<close>, so the exception is not suppressed.
\<close>

definition dunder_exit :: "'x option \<Rightarrow> real \<Rightarrow> IntervalCheck \<Rightarrow> IntervalCheck" where
  "dunder_exit exc now self = self\<lparr>last_time := Some now\<rparr>"

text \<open>
  Python's \<^verbatim>\<open>with self: body\<close>. \<^verbatim>\<open>__enter__\<close> runs at clock reading \<open>t_enter\<close>; if it
  raises, neither the body nor \<^verbatim>\<open>__exit__\<close> runs. Otherwise the body runs on the object
  and either returns a value (\<^term>\<open>Inr\<close>) or raises (\<^term>\<open>Inl\<close>); then \<^verbatim>\<open>__exit__\<close>
  runs at clock reading \<open>t_exit\<close> with the exception, if any, and the body's outcome is the
  outcome of the statement.
\<close>

definition with_statement ::
    "real \<Rightarrow> (IntervalCheck \<Rightarrow> ('x + 'a) \<times> IntervalCheck) \<Rightarrow> real \<Rightarrow> IntervalCheck
       \<Rightarrow> error + (('x + 'a) \<times> IntervalCheck)" where
  "with_statement t_enter body t_exit self =
     (case dunder_enter t_enter self of
        Inl e \<Rightarrow> Inl e
      | Inr (blocked, self1) \<Rightarrow>
          (case body self1 of
             (Inl exc, self2) \<Rightarrow> Inr (Inl exc, dunder_exit (Some exc) t_exit self2)
           | (Inr res, self2) \<Rightarrow> Inr (Inr res, dunder_exit (None :: 'x option) t_exit self2)))"

section \<open>Properties\<close>

subsection \<open>Unfolding the factory\<close>

lemma interpolator_ascending:
  "source_low < source_high \<Longrightarrow>
   interpolator source_low source_high dest_low dest_high lock_range =
     Inr (if lock_range
            then inner_locked_interpolator source_low (1 / (source_high - source_low)) dest_low dest_high
          else inner_interpolator source_low (1 / (source_high - source_low)) dest_low dest_high)"
  by (subst interpolator.simps) (simp add: truediv_def)

lemma interpolator_descending:
  "source_low > source_high \<Longrightarrow>
   interpolator source_low source_high dest_low dest_high lock_range =
     interpolator source_high source_low dest_high dest_low lock_range"
  by (subst interpolator.simps) simp

lemma interpolator_equal:
  "interpolator source_low source_low dest_low dest_high lock_range =
     Inl (ValueError (SourceRangeEmpty source_low))"
  by (subst interpolator.simps) simp

lemma interpolator_locked_cases:
  assumes "source_low \<noteq> source_high"
  shows "\<exists>a sri. interpolator source_low source_high dest_low dest_high True =
           Inr (inner_locked_interpolator a sri
                  (if source_low < source_high then dest_low else dest_high)
                  (if source_low < source_high then dest_high else dest_low))"
proof (cases "source_low < source_high")
  case True
  then show ?thesis by (auto simp: interpolator_ascending)
next
  case False
  with assms have gt: "source_high < source_low" by simp
  then show ?thesis
    by (auto simp: interpolator_descending interpolator_ascending)
qed

subsection \<open>The locked interpolation of non-negative bounds is non-negative\<close>

text \<open>
  The clamped position and its complement are not negative, so neither are the two products
  nor their sum. No step of the argument uses an exact value.
\<close>

lemma inner_locked_interpolator_nonneg:
  assumes "0 \<le> dest_low" and "0 \<le> dest_high"
  shows "0 \<le> inner_locked_interpolator source_low sri dest_low dest_high val"
proof -
  define i where "i = max 0 (min 1 ((val - source_low) * sri))"
  have "0 \<le> i" and "0 \<le> 1 - i" by (simp_all add: i_def)
  then have "0 \<le> i * dest_high" and "0 \<le> (1 - i) * dest_low"
    using assms by simp_all
  then have "0 \<le> i * dest_high + (1 - i) * dest_low" by simp
  then show ?thesis
    by (simp add: inner_locked_interpolator_def i_def Let_def)
qed

subsection \<open>The blocking call of the gate cannot fail\<close>

text \<open>
  The duration handed to \<^verbatim>\<open>time.sleep\<close> is never negative, so \<^verbatim>\<open>sleep\<close> always
  returns.
\<close>

lemma sleep_returns: "\<exists>blocked self1. sleep now self = Inr (blocked, self1)"
  by (cases "last_time self") (simp_all add: sleep_def time_sleep_def Let_def)

subsection \<open>C2: the quantiser returns a level between 0 and max_level\<close>

text \<open>
  Claim C2. Let a quantiser be constructed successfully from \<open>max_level \<ge> 1\<close>, both pads
  in \<open>[0, 1]\<close> and distinct source bounds. Then its internal interpolator \<open>i\<close> is the
  locked interpolator from the source bounds to the destination bounds \<open>low_pad\<close> and
  \<open>max_level + 1 - high_pad\<close>, and for every real input the quantiser returns the floor of
  \<open>i\<close> capped at \<open>max_level\<close>, an integer from \<open>0\<close> to \<open>max_level\<close> inclusive.
\<close>

theorem quantise_to_range:
  assumes "quantise_to source_low source_high max_level low_pad high_pad = Inr q"
    and "1 \<le> max_level" and "0 \<le> low_pad" and "low_pad \<le> 1"
    and "0 \<le> high_pad" and "high_pad \<le> 1" and "source_low \<noteq> source_high"
  shows "\<exists>i. interpolator source_low source_high low_pad (of_int max_level + 1 - high_pad) True
               = Inr i
             \<and> (\<forall>val. q val = min max_level \<lfloor>i val\<rfloor> \<and> 0 \<le> q val \<and> q val \<le> max_level)"
proof -
  define dest_high :: real where "dest_high = of_int max_level + 1 - high_pad"
  have dh: "0 \<le> dest_high"
    using assms(2,6) by (simp add: dest_high_def)
  from interpolator_locked_cases [OF assms(7), of low_pad dest_high]
  obtain a sri where I: "interpolator source_low source_high low_pad dest_high True =
      Inr (inner_locked_interpolator a sri
             (if source_low < source_high then low_pad else dest_high)
             (if source_low < source_high then dest_high else low_pad))"
    by blast
  define i where "i = inner_locked_interpolator a sri
             (if source_low < source_high then low_pad else dest_high)
             (if source_low < source_high then dest_high else low_pad)"
  have nonneg: "0 \<le> i val" for val
    unfolding i_def using inner_locked_interpolator_nonneg assms(3) dh by simp
  have Q: "q = (\<lambda>val. min max_level \<lfloor>i val\<rfloor>)"
    using assms(1-6) I by (simp add: quantise_to_def dest_high_def i_def)
  have "q val = min max_level \<lfloor>i val\<rfloor> \<and> 0 \<le> q val \<and> q val \<le> max_level" for val
  proof -
    have "0 \<le> \<lfloor>i val\<rfloor>" using nonneg [of val] by simp
    then show ?thesis using assms(2) by (simp add: Q)
  qed
  with I show ?thesis
    unfolding dest_high_def i_def by blast
qed

theorem quantise_to_range_witness:
  "\<exists>q. quantise_to (-1) 1 255 0 0 = Inr q
      \<and> (\<exists>i. interpolator (-1) 1 0 (of_int 255 + 1 - 0) True = Inr i
             \<and> (\<forall>val. q val = min 255 \<lfloor>i val\<rfloor> \<and> 0 \<le> q val \<and> q val \<le> 255))
      \<and> q (-1) = 0 \<and> q 0 = 128 \<and> q 1 = 255"
proof -
  define q :: "real \<Rightarrow> int"
    where "q = (\<lambda>val. min 255 \<lfloor>inner_locked_interpolator (-1) (1 / (1 - (-1))) 0 256 val\<rfloor>)"
  have Q: "quantise_to (-1) 1 255 0 0 = Inr q"
    by (simp add: quantise_to_def interpolator_ascending q_def)
  have v: "q (-1) = 0 \<and> q 0 = 128 \<and> q 1 = 255"
    by (simp add: q_def inner_locked_interpolator_def Let_def)
  from quantise_to_range [OF Q] Q v show ?thesis by simp
qed

subsection \<open>C3: should_run fires exactly when unset or overdue\<close>

text \<open>
  Claim C3. At every clock reading and for every object, \<^verbatim>\<open>should_run\<close> returns
  \<^verbatim>\<open>True\<close> exactly when \<^verbatim>\<open>last_time\<close> is unset or the time elapsed since it is
  strictly greater than \<^verbatim>\<open>interval\<close>. When it returns \<^verbatim>\<open>True\<close> the object afterwards
  is the object before with \<^verbatim>\<open>last_time\<close> set to the clock reading; when it returns
  \<^verbatim>\<open>False\<close> the object is unchanged. \<^verbatim>\<open>__bool__\<close> has the same result and the same
  effect.
\<close>

theorem should_run_fires_iff:
  "(fst (should_run now self) \<longleftrightarrow>
      (last_time self = None \<or> (\<exists>t. last_time self = Some t \<and> now - t > interval self)))
   \<and> (fst (should_run now self) \<longrightarrow> snd (should_run now self) = self\<lparr>last_time := Some now\<rparr>)
   \<and> (\<not> fst (should_run now self) \<longrightarrow> snd (should_run now self) = self)
   \<and> dunder_bool now self = should_run now self"
  by (simp add: should_run_def dunder_bool_def split: option.split)

theorem should_run_fires_iff_witness:
  "should_run 100 (dunder_init 1) = (True, \<lparr>interval = 1, last_time = Some 100\<rparr>)
   \<and> should_run 100.5 \<lparr>interval = 1, last_time = Some 100\<rparr>
        = (False, \<lparr>interval = 1, last_time = Some 100\<rparr>)
   \<and> should_run 101 \<lparr>interval = 1, last_time = Some 100\<rparr>
        = (False, \<lparr>interval = 1, last_time = Some 100\<rparr>)
   \<and> dunder_bool 101.5 \<lparr>interval = 1, last_time = Some 100\<rparr>
        = (True, \<lparr>interval = 1, last_time = Some 101.5\<rparr>)"
  using should_run_fires_iff [of 100 "dunder_init 1"]
    should_run_fires_iff [of "100.5" "\<lparr>interval = 1, last_time = Some 100\<rparr>"]
    should_run_fires_iff [of 101 "\<lparr>interval = 1, last_time = Some 100\<rparr>"]
    should_run_fires_iff [of "101.5" "\<lparr>interval = 1, last_time = Some 100\<rparr>"]
  by (simp add: dunder_init_def prod_eq_iff)

subsection \<open>C4: sleep blocks for the remaining time and records the target wake time\<close>

text \<open>
  Claim C4. \<^verbatim>\<open>sleep\<close> at clock reading \<open>now\<close>: with \<^verbatim>\<open>last_time\<close> unset it records
  \<open>now\<close> and does not block; with \<open>now - last_time > interval\<close> it returns without
  blocking; otherwise it blocks for \<open>interval - (now - last_time)\<close>, which is not
  negative, and sets \<^verbatim>\<open>last_time\<close> to \<open>now\<close> plus that duration, which equals the old
  \<^verbatim>\<open>last_time\<close> plus \<^verbatim>\<open>interval\<close>. The new \<^verbatim>\<open>last_time\<close> is computed from the reading
  taken before blocking; the clock is not read again after waking.
\<close>

theorem sleep_behaviour:
  "(last_time self = None \<longrightarrow> sleep now self = Inr (None, self\<lparr>last_time := Some now\<rparr>))
   \<and> (\<forall>t. last_time self = Some t \<and> now - t > interval self \<longrightarrow>
          (\<exists>self'. sleep now self = Inr (None, self')))
   \<and> (\<forall>t. last_time self = Some t \<and> \<not> now - t > interval self \<longrightarrow>
          sleep now self =
            Inr (Some (interval self - (now - t)),
                 self\<lparr>last_time := Some (now + (interval self - (now - t)))\<rparr>)
          \<and> now + (interval self - (now - t)) = t + interval self
          \<and> 0 \<le> interval self - (now - t))"
  by (simp add: sleep_def time_sleep_def Let_def)

theorem sleep_behaviour_witness:
  "sleep 7 (dunder_init 2) = Inr (None, \<lparr>interval = 2, last_time = Some 7\<rparr>)
   \<and> (\<exists>self'. sleep 10 \<lparr>interval = 2, last_time = Some 7\<rparr> = Inr (None, self'))
   \<and> sleep 7.5 \<lparr>interval = 2, last_time = Some 7\<rparr>
        = Inr (Some 1.5, \<lparr>interval = 2, last_time = Some 9\<rparr>)"
  using sleep_behaviour [of "dunder_init 2" 7]
    sleep_behaviour [of "\<lparr>interval = 2, last_time = Some 7\<rparr>" 10]
    sleep_behaviour [of "\<lparr>interval = 2, last_time = Some 7\<rparr>" "7.5"]
  by (simp add: dunder_init_def)

subsection \<open>C7: the quantisation examples\<close>

text \<open>
  Claim C7. \<^verbatim>\<open>q = quantise_to(0, 1, 10)\<close>, with both pads at their default \<open>0\<close>, gives
  \<open>q(0.51) = 5\<close>, \<open>q(0.08) = 0\<close> and \<open>q(0.10) = 1\<close>; with both pads \<open>0.5\<close> it
  gives \<open>q'(0) = 0\<close>, \<open>q'(0.05) = 1\<close> and \<open>q'(0.95) = 10\<close>.
\<close>

theorem quantisation_examples:
  "(\<exists>q. quantise_to 0 1 10 0 0 = Inr q \<and> q 0.51 = 5 \<and> q 0.08 = 0 \<and> q 0.10 = 1)
   \<and> (\<exists>q'. quantise_to 0 1 10 0.5 0.5 = Inr q' \<and> q' 0 = 0 \<and> q' 0.05 = 1 \<and> q' 0.95 = 10)"
  by (simp add: quantise_to_def interpolator_ascending inner_locked_interpolator_def Let_def)

subsection \<open>C8: the scoped-acquisition protocol\<close>

text \<open>
  Claim C8. \<^verbatim>\<open>__enter__\<close> is a call of \<^verbatim>\<open>sleep\<close>. \<^verbatim>\<open>__exit__\<close> sets
  \<^verbatim>\<open>last_time\<close> to the clock reading and leaves \<^verbatim>\<open>interval\<close> alone, whether it is
  passed an exception or none. Hence a \<^verbatim>\<open>with\<close> statement on the object always gets
  through its entry, hands the outcome of its block on unchanged, be it a value or an
  exception, and leaves \<^verbatim>\<open>last_time\<close> at the clock reading taken on exit.
\<close>

theorem scoped_acquisition:
  "dunder_enter t_enter self = sleep t_enter self
   \<and> (\<forall>exc :: 'x option.
          last_time (dunder_exit exc t_exit self2) = Some t_exit
        \<and> interval (dunder_exit exc t_exit self2) = interval self2)
   \<and> (\<exists>blocked self1.
          sleep t_enter self = Inr (blocked, self1)
        \<and> (\<exists>self'. with_statement t_enter (body :: IntervalCheck \<Rightarrow> ('x + 'a) \<times> IntervalCheck) t_exit self
                      = Inr (fst (body self1), self')
                  \<and> last_time self' = Some t_exit
                  \<and> interval self' = interval (snd (body self1))))"
proof -
  from sleep_returns [of t_enter self]
  obtain blocked self1 where s: "sleep t_enter self = Inr (blocked, self1)"
    by blast
  obtain r self2' where b: "body self1 = (r, self2')" by (cases "body self1")
  have "\<exists>self'. with_statement t_enter body t_exit self = Inr (fst (body self1), self')
                  \<and> last_time self' = Some t_exit
                  \<and> interval self' = interval (snd (body self1))"
    using s b by (cases r) (simp_all add: with_statement_def dunder_enter_def dunder_exit_def)
  with s show ?thesis
    by (auto simp: dunder_enter_def dunder_exit_def)
qed

theorem scoped_acquisition_witness:
  "(\<exists>self'. with_statement 7.5 (\<lambda>s. (Inl ''boom'' :: string + unit, s)) 20
                \<lparr>interval = 2, last_time = Some 7\<rparr> = Inr (Inl ''boom'', self')
            \<and> last_time self' = Some 20)
   \<and> (\<exists>self'. with_statement 7.5 (\<lambda>s. (Inr () :: string + unit, s)) 20
                \<lparr>interval = 2, last_time = Some 7\<rparr> = Inr (Inr (), self')
            \<and> last_time self' = Some 20)"
  using scoped_acquisition [of "7.5" "\<lparr>interval = 2, last_time = Some 7\<rparr>" 20 _
          "\<lambda>s. (Inl ''boom'' :: string + unit, s)"]
    scoped_acquisition [of "7.5" "\<lparr>interval = 2, last_time = Some 7\<rparr>" 20 _
          "\<lambda>s. (Inr () :: string + unit, s)"]
  by auto

subsection \<open>C9: sleep does not re-arm an overdue gate\<close>

text \<open>
  Claim C9. When \<^verbatim>\<open>last_time\<close> is set and more than \<^verbatim>\<open>interval\<close> has elapsed,
  \<^verbatim>\<open>sleep\<close> returns without blocking and leaves the object unchanged. A later
  \<^verbatim>\<open>sleep\<close> therefore still measures from the original \<^verbatim>\<open>last_time\<close>: were its clock
  reading within the interval of it, it would block until the original \<^verbatim>\<open>last_time\<close> plus
  \<^verbatim>\<open>interval\<close>; and with a clock that does not run backwards it does not block either.
  \<^verbatim>\<open>should_run\<close> at the same reading does re-arm: it sets \<^verbatim>\<open>last_time\<close> to the reading,
  and a following \<^verbatim>\<open>sleep\<close> measures from there.
\<close>

theorem sleep_elapsed_frame:
  assumes "last_time self = Some t" and "now - t > interval self"
  shows "sleep now self = Inr (None, self)
       \<and> (\<forall>now2. \<not> now2 - t > interval self \<longrightarrow>
            sleep now2 self = Inr (Some (interval self - (now2 - t)),
                                   self\<lparr>last_time := Some (t + interval self)\<rparr>))
       \<and> (\<forall>now2. now \<le> now2 \<longrightarrow> sleep now2 self = Inr (None, self))
       \<and> should_run now self = (True, self\<lparr>last_time := Some now\<rparr>)
       \<and> (\<forall>now2. \<not> now2 - now > interval self \<longrightarrow>
            sleep now2 (snd (should_run now self))
              = Inr (Some (interval self - (now2 - now)),
                     self\<lparr>last_time := Some (now + interval self)\<rparr>))"
  using assms by (simp add: sleep_def should_run_def time_sleep_def Let_def)

theorem sleep_elapsed_frame_witness:
  "sleep 10 \<lparr>interval = 2, last_time = Some 7\<rparr> = Inr (None, \<lparr>interval = 2, last_time = Some 7\<rparr>)
   \<and> sleep 8 \<lparr>interval = 2, last_time = Some 7\<rparr>
        = Inr (Some 1, \<lparr>interval = 2, last_time = Some 9\<rparr>)
   \<and> sleep 11 \<lparr>interval = 2, last_time = Some 7\<rparr> = Inr (None, \<lparr>interval = 2, last_time = Some 7\<rparr>)
   \<and> should_run 10 \<lparr>interval = 2, last_time = Some 7\<rparr> = (True, \<lparr>interval = 2, last_time = Some 10\<rparr>)
   \<and> sleep 11 (snd (should_run 10 \<lparr>interval = 2, last_time = Some 7\<rparr>))
        = Inr (Some 1, \<lparr>interval = 2, last_time = Some 12\<rparr>)"
proof -
  have h1: "last_time \<lparr>interval = 2, last_time = Some (7::real)\<rparr> = Some 7" by simp
  have h2: "(10::real) - 7 > interval \<lparr>interval = 2, last_time = Some (7::real)\<rparr>" by simp
  from sleep_elapsed_frame [OF h1 h2] show ?thesis
    by (simp add: sleep_def should_run_def time_sleep_def Let_def)
qed

subsection \<open>C10: the quantiser also rejects an empty source range\<close>

text \<open>
  Claim C10. With parameters that pass the quantiser's own checks (\<open>max_level \<ge> 1\<close>,
  both pads in \<open>[0, 1]\<close>), \<^verbatim>\<open>quantise_to\<close> still fails at construction when
  \<open>source_low = source_high\<close>: the error is the one raised by the interpolator it
  builds.
\<close>

theorem quantise_to_empty_source_range:
  assumes "1 \<le> max_level" and "0 \<le> low_pad" and "low_pad \<le> 1"
    and "0 \<le> high_pad" and "high_pad \<le> 1"
  shows "quantise_to source source max_level low_pad high_pad
           = Inl (ValueError (SourceRangeEmpty source))"
  using assms by (simp add: quantise_to_def interpolator_equal)

theorem quantise_to_empty_source_range_witness:
  "(1::int) \<le> 10 \<and> (0::real) \<le> 0.5 \<and> (0.5::real) \<le> 1
   \<and> quantise_to 3 3 10 0.5 0.5 = Inl (ValueError (SourceRangeEmpty 3))"
  using quantise_to_empty_source_range [of 10 "0.5" "0.5" 3] by simp

end
